theory Spec2Isabelle
  imports Complex_Main
begin

section \<open>Python values, exceptions and external calls\<close>

text \<open>
  The program is the module \<^verbatim>\<open>start.py\<close>: a bootstrap script whose statements run
  once when the module is imported, and which defines the callables
  \<^verbatim>\<open>get_user_details\<close>, \<^verbatim>\<open>run_orchestrator\<close>, \<^verbatim>\<open>run_configured_orchestrator\<close>,
  \<^verbatim>\<open>lifespan\<close>, \<^verbatim>\<open>handle_error\<close> and \<^verbatim>\<open>health_check\<close>.

  Everything the module calls outside itself (the Kubernetes client library, SQLAlchemy,
  FastAPI, the orchestrator package) is a collaborator whose answers are parameters of the
  model. A call that can raise returns \<open>py_exception + 'a\<close> (\<open>Inl\<close> is the raised
  exception). Each function of the model also returns the list of external calls it
  made, in order, so that what is called, with which arguments and after what, can be
  stated.
\<close>

record frame_summary =
  frame_filename :: string
  frame_lineno :: nat
  frame_name :: string
  frame_line :: string

text \<open>
  An exception object: \<open>exc_type_name\<close> is \<^verbatim>\<open>type(exc).__name__\<close>, \<open>exc_str\<close> is
  \<^verbatim>\<open>str(exc)\<close>, \<open>exc_traceback\<close> the frames of \<^verbatim>\<open>exc.__traceback__\<close>, outermost first.
\<close>

record py_exception =
  exc_type_name :: string
  exc_str :: string
  exc_traceback :: "frame_summary list"

text \<open>
  A call that may also never return (\<^verbatim>\<open>run_loop\<close> is written to loop forever).
\<close>

datatype 'a outcome = Returned 'a | Raised py_exception | Never_returns

subsection \<open>Objects built by the bootstrap\<close>

text \<open>
  External classes that the module only instantiates are values that record the keyword
  arguments of the constructor call. \<open>kube_config_source\<close> is the process-wide default
  client configuration that the successful loader installed and that \<^verbatim>\<open>ApiClient()\<close>
  picks up.
\<close>

datatype kube_config_source =
    In_cluster
  | Kube_config "string option" "string option"

datatype api_client = ApiClient kube_config_source

record launcher =
  launcher_api_client :: api_client
  launcher_namespace :: string
  launcher_service_account_name :: "string option"

datatype storage_provider = GoogleCloudStorageProvider

datatype db_engine = Db_engine string

record sessionmaker =
  autocommit :: bool
  autoflush :: bool
  bind :: db_engine

text \<open>
  The callables of \<^verbatim>\<open>start.py\<close> that the module hands to the thread library and to the
  web framework, by name.
\<close>

datatype callable =
    Run_configured_orchestrator
  | Lifespan
  | Handle_error
  | Health_check

text \<open>
  A request as a handler sees it, and what \<^verbatim>\<open>api_router.UserDetails(name, permissions)\<close>
  and \<^verbatim>\<open>api_router.Permissions(read, write, admin)\<close> hold; the three flags carry the prefix
  \<open>perm_\<close> here.
\<close>

record request =
  request_method :: string
  request_path :: string
  request_headers :: "(string \<times> string) list"
  request_cookies :: "(string \<times> string) list"
  request_client_host :: "string option"
  request_body :: string

record permissions =
  perm_read :: bool
  perm_write :: bool
  perm_admin :: bool

record user_details =
  name :: string
  permissions :: permissions

text \<open>Values passed as keyword arguments.\<close>

datatype py_value =
    Py_none
  | Py_bool bool
  | Py_int int
  | Py_float real
  | Py_str string
  | Py_sessionmaker sessionmaker
  | Py_launcher launcher
  | Py_storage_provider storage_provider
  | Py_db_engine db_engine
  | Py_callable callable
  | Py_user_details_getter "request \<Rightarrow> user_details"
  | Py_app

type_synonym kwargs = "(string \<times> py_value) list"

text \<open>
  A reference to the object that the orchestrator's constructor returns; the class is
  outside the module, so nothing but its identity is known here.
\<close>

datatype orchestrator = Orchestrator_object nat

text \<open>The external calls of the module.\<close>

datatype call =
    Logger_info string
  | Logger_warning string
  | Load_incluster_config
  | Load_kube_config "string option" "string option"
  | VersionApi_get_code api_client nat
  | Create_db_engine_and_migrate_db string
  | Orm_sessionmaker sessionmaker
  | OrchestratorService_Sql kwargs
  | Run_loop orchestrator
  | Setup_routes kwargs

section \<open>Configuration\<close>

text \<open>The module's configuration region (lines 22--46), with the values it assigns.\<close>

record configuration =
  database_uri :: string
  artifacts_root_uri :: string
  logs_root_uri :: string
  kubernetes_namespace :: string
  kubernetes_service_account_name :: "string option"
  kubeconfig_path :: "string option"
  kubeconfig_context :: "string option"
  host :: string
  port :: int
  authentication_type :: string
  sleep_seconds_between_queue_sweeps :: real

definition start_py_configuration :: configuration where
  "start_py_configuration =
     \<lparr> database_uri = ''sqlite:///db.sqlite'',
       artifacts_root_uri = ''gs://<bucket-artifacts>/artifacts'',
       logs_root_uri = ''gs://<bucket-logs>/logs'',
       kubernetes_namespace = ''default'',
       kubernetes_service_account_name = None,
       kubeconfig_path = None,
       kubeconfig_context = None,
       host = ''0.0.0.0'',
       port = 8000,
       authentication_type = ''dummy_admin'',
       sleep_seconds_between_queue_sweeps = 1 \<rparr>"

section \<open>Launcher configuration\<close>

text \<open>
  The Kubernetes client library as the module uses it at lines 122--132. The answers of
  its three calls are parameters.
\<close>

record kubernetes_lib =
  load_incluster_config :: "py_exception + unit"
  load_kube_config :: "string option \<Rightarrow> string option \<Rightarrow> py_exception + unit"
  get_code :: "api_client \<Rightarrow> nat \<Rightarrow> py_exception + unit"

text \<open>
  Lines 122--128: \<^verbatim>\<open>try: load_incluster_config()\<close> with a bare \<^verbatim>\<open>except:\<close>, which
  catches every exception, whatever its type; the handler calls \<^verbatim>\<open>load_kube_config\<close>
  outside any \<^verbatim>\<open>try\<close>.
\<close>

definition load_kubernetes_config ::
  "kubernetes_lib \<Rightarrow> configuration \<Rightarrow> call list \<times> (py_exception + kube_config_source)" where
  "load_kubernetes_config k cfg =
     (case load_incluster_config k of
        Inr _ \<Rightarrow> ([Load_incluster_config], Inr In_cluster)
      | Inl _ \<Rightarrow>
          (case load_kube_config k (kubeconfig_path cfg) (kubeconfig_context cfg) of
             Inr _ \<Rightarrow>
               ([Load_incluster_config,
                 Load_kube_config (kubeconfig_path cfg) (kubeconfig_context cfg)],
                Inr (Kube_config (kubeconfig_path cfg) (kubeconfig_context cfg)))
           | Inl e \<Rightarrow>
               ([Load_incluster_config,
                 Load_kube_config (kubeconfig_path cfg) (kubeconfig_context cfg)],
                Inl e)))"

text \<open>
  Lines 129--132: \<^verbatim>\<open>k8s_client = ApiClient()\<close>, then
  \<^verbatim>\<open>VersionApi(k8s_client).get_code(_request_timeout=5)\<close>, not inside any \<^verbatim>\<open>try\<close>.
\<close>

definition test_k8s_client ::
  "kubernetes_lib \<Rightarrow> kube_config_source \<Rightarrow> call list \<times> (py_exception + api_client)" where
  "test_k8s_client k src =
     (let k8s_client = ApiClient src in
      case get_code k k8s_client 5 of
        Inr _ \<Rightarrow> ([VersionApi_get_code k8s_client 5], Inr k8s_client)
      | Inl e \<Rightarrow> ([VersionApi_get_code k8s_client 5], Inl e))"

text \<open>
  Lines 122--141, the whole region: load a configuration, build and test the client,
  build the launcher.
\<close>

definition launcher_configuration ::
  "kubernetes_lib \<Rightarrow> configuration \<Rightarrow> call list \<times> (py_exception + launcher)" where
  "launcher_configuration k cfg =
     (case load_kubernetes_config k cfg of
        (calls, Inl e) \<Rightarrow> (calls, Inl e)
      | (calls, Inr src) \<Rightarrow>
          (case test_k8s_client k src of
             (calls', Inl e) \<Rightarrow> (calls @ calls', Inl e)
           | (calls', Inr k8s_client) \<Rightarrow>
               (calls @ calls',
                Inr \<lparr> launcher_api_client = k8s_client,
                      launcher_namespace = kubernetes_namespace cfg,
                      launcher_service_account_name = kubernetes_service_account_name cfg \<rparr>)))"

section \<open>Authentication configuration\<close>

definition ADMIN_USER_NAME :: string where
  "ADMIN_USER_NAME = ''admin''"

text \<open>Lines 154--162.\<close>

definition get_user_details :: "request \<Rightarrow> user_details" where
  "get_user_details request =
     \<lparr> name = ADMIN_USER_NAME,
       permissions = \<lparr> perm_read = True, perm_write = True, perm_admin = True \<rparr> \<rparr>"

text \<open>
  Lines 147--167: the function exists only under \<^verbatim>\<open>"dummy_admin"\<close>; the two other
  branches raise while the module is imported.
\<close>

record authentication =
  user_details_getter :: "request \<Rightarrow> user_details"
  default_component_library_owner_username :: string

definition authentication_configuration :: "configuration \<Rightarrow> py_exception + authentication" where
  "authentication_configuration cfg =
     (if authentication_type cfg = ''dummy_admin'' then
        Inr \<lparr> user_details_getter = get_user_details,
              default_component_library_owner_username = ADMIN_USER_NAME \<rparr>
      else if authentication_type cfg = ''google_cloud_iap'' then
        Inl \<lparr> exc_type_name = ''NotImplementedError'',
              exc_str = ''Google Cloud IAP authentication is not implemented yet.'',
              exc_traceback = [] \<rparr>
      else
        Inl \<lparr> exc_type_name = ''ValueError'',
              exc_str = ''Unknown authentication type: '' @ authentication_type cfg,
              exc_traceback = [] \<rparr>)"

section \<open>Orchestrator initialization\<close>

text \<open>
  The orchestrator package as the module uses it: the constructor
  \<^verbatim>\<open>orchestrator_sql.OrchestratorService_Sql(**kwargs)\<close> and the method \<^verbatim>\<open>run_loop\<close>.
  Their behaviour is a parameter; none of their code is part of this module.
\<close>

record orchestrator_lib =
  new_OrchestratorService_Sql :: "kwargs \<Rightarrow> py_exception + orchestrator"
  run_loop :: "orchestrator \<Rightarrow> unit outcome"

text \<open>
  Lines 194--202: the keyword arguments of the constructor call, in the order written.
  \<^verbatim>\<open>launcher\<close> is read from the module's global of that name, so it is an argument here.
\<close>

definition orchestrator_kwargs ::
  "sessionmaker \<Rightarrow> launcher \<Rightarrow> storage_provider \<Rightarrow> string \<Rightarrow> string \<Rightarrow> real \<Rightarrow> kwargs" where
  "orchestrator_kwargs session_factory launcher storage_provider data_root_uri logs_root_uri'
       sleep_seconds_between_queue_sweeps' =
     [(''session_factory'', Py_sessionmaker session_factory),
      (''launcher'', Py_launcher launcher),
      (''storage_provider'', Py_storage_provider storage_provider),
      (''data_root_uri'', Py_str data_root_uri),
      (''logs_root_uri'', Py_str logs_root_uri'),
      (''sleep_seconds_between_queue_sweeps'', Py_float sleep_seconds_between_queue_sweeps')]"

text \<open>
  Lines 181--203. Nothing is caught: an exception of the constructor or of
  \<^verbatim>\<open>run_loop\<close> leaves \<^verbatim>\<open>run_orchestrator\<close>. The orchestrator object is a local variable;
  the function returns \<^verbatim>\<open>None\<close>.
\<close>

definition run_orchestrator ::
  "orchestrator_lib \<Rightarrow> launcher \<Rightarrow> db_engine \<Rightarrow> storage_provider \<Rightarrow> string \<Rightarrow> string \<Rightarrow> real
     \<Rightarrow> call list \<times> unit outcome" where
  "run_orchestrator lib launcher db_engine storage_provider data_root_uri logs_root_uri'
       sleep_seconds_between_queue_sweeps' =
     (let session_factory = \<lparr> autocommit = False, autoflush = False, bind = db_engine \<rparr>;
          kw = orchestrator_kwargs session_factory launcher storage_provider data_root_uri
                 logs_root_uri' sleep_seconds_between_queue_sweeps';
          calls = [Logger_info ''Starting the orchestrator'',
                   Orm_sessionmaker session_factory,
                   OrchestratorService_Sql kw]
      in case new_OrchestratorService_Sql lib kw of
           Inl e \<Rightarrow> (calls, Raised e)
         | Inr orchestrator \<Rightarrow> (calls @ [Run_loop orchestrator], run_loop lib orchestrator))"

text \<open>
  The module's global variables that the callables read after the import.
\<close>

record module_globals =
  g_configuration :: configuration
  g_storage_provider :: storage_provider
  g_launcher :: launcher
  g_authentication :: authentication
  g_db_engine :: db_engine

text \<open>Lines 206--212: the lambda reads the globals when it is called.\<close>

definition run_configured_orchestrator ::
  "orchestrator_lib \<Rightarrow> module_globals \<Rightarrow> call list \<times> unit outcome" where
  "run_configured_orchestrator lib g =
     run_orchestrator lib (g_launcher g) (g_db_engine g) (g_storage_provider g)
       (artifacts_root_uri (g_configuration g))
       (logs_root_uri (g_configuration g))
       (sleep_seconds_between_queue_sweeps (g_configuration g))"

section \<open>API server initialization\<close>

subsection \<open>Decimal text of integers, as f-strings and the traceback module print them\<close>

fun str_nat :: "nat \<Rightarrow> string" where
  "str_nat n =
     (if n < 10 then [char_of (48 + n)]
      else str_nat (n div 10) @ [char_of (48 + n mod 10)])"

declare str_nat.simps [simp del]

definition str_int :: "int \<Rightarrow> string" where
  "str_int i = (if i < 0 then CHR ''-'' # str_nat (nat (- i)) else str_nat (nat i))"

subsection \<open>The lifespan context and the orchestrator thread\<close>

record thread =
  target :: callable
  daemon :: bool

text \<open>
  The running process: the module's globals (\<^verbatim>\<open>lifespan\<close> assigns the global
  \<^verbatim>\<open>port\<close>), the threads started so far, and the external calls made on the main
  thread.
\<close>

record process =
  process_globals :: module_globals
  process_threads :: "thread list"
  process_calls :: "call list"

text \<open>
  Lines 218--229, the part of \<^verbatim>\<open>lifespan\<close> before \<^verbatim>\<open>yield\<close>; \<open>environ\<close> is
  \<^verbatim>\<open>os.environ.get\<close>. \<^verbatim>\<open>port or 8000\<close> is 8000 when \<^verbatim>\<open>port\<close> is 0.
\<close>

definition lifespan_startup :: "(string \<Rightarrow> string option) \<Rightarrow> process \<Rightarrow> process" where
  "lifespan_startup environ p =
     (let p1 = p\<lparr> process_threads :=
                   process_threads p @ [\<lparr> target = Run_configured_orchestrator, daemon = True \<rparr>] \<rparr>
      in if environ ''GOOGLE_CLOUD_SHELL'' = Some ''true'' then
           (let cfg = g_configuration (process_globals p1);
                port' = (if port cfg = 0 then 8000 else port cfg)
            in p1\<lparr> process_globals := (process_globals p1)\<lparr> g_configuration := cfg\<lparr> port := port' \<rparr> \<rparr>,
                   process_calls := process_calls p1 @
                     [Logger_info (''View app at: https://shell.cloud.google.com/devshell/proxy?port=''
                        @ str_int port')] \<rparr>)
         else p1)"

text \<open>Line 230: nothing follows \<^verbatim>\<open>yield\<close>, so leaving the context does nothing.\<close>

definition lifespan_shutdown :: "process \<Rightarrow> process" where
  "lifespan_shutdown p = p"

text \<open>
  What becomes of a thread whose target is \<^verbatim>\<open>run_configured_orchestrator\<close>:
  \<^verbatim>\<open>threading.Thread\<close> calls the target once; when the target returns the thread is
  finished, when an exception leaves the target the thread ends with it, and while the
  target does not return the thread is alive.
\<close>

datatype thread_state = Alive | Finished | Died py_exception

definition orchestrator_thread :: "orchestrator_lib \<Rightarrow> module_globals \<Rightarrow> call list \<times> thread_state" where
  "orchestrator_thread lib g =
     (case run_configured_orchestrator lib g of
        (cs, Returned _) \<Rightarrow> (cs, Finished)
      | (cs, Raised e) \<Rightarrow> (cs, Died e)
      | (cs, Never_returns) \<Rightarrow> (cs, Alive))"

subsection \<open>The exception handler and the health check\<close>

text \<open>
  \<^verbatim>\<open>traceback.format_exception(type(exc), exc, exc.__traceback__)\<close> of the standard
  library, for an exception without a chained cause: a header when there is a traceback,
  one entry per frame, and the line \<^verbatim>\<open>Type: message\<close> last. Every entry ends in a
  newline.
\<close>

definition newline :: string where
  "newline = [CHR 0x0A]"

definition format_frame :: "frame_summary \<Rightarrow> string" where
  "format_frame f =
     ''  File '' @ [CHR 0x22] @ frame_filename f @ [CHR 0x22] @ '', line '' @ str_nat (frame_lineno f)
       @ '', in '' @ frame_name f @ newline
       @ (if frame_line f = [] then [] else ''    '' @ frame_line f @ newline)"

definition format_exception_only :: "py_exception \<Rightarrow> string" where
  "format_exception_only exc =
     (if exc_str exc = [] then exc_type_name exc @ newline
      else exc_type_name exc @ '': '' @ exc_str exc @ newline)"

definition format_exception :: "py_exception \<Rightarrow> string list" where
  "format_exception exc =
     (if exc_traceback exc = [] then []
      else [''Traceback (most recent call last):'' @ newline])
     @ map format_frame (exc_traceback exc)
     @ [format_exception_only exc]"

record json_response =
  status_code :: nat
  content :: "(string \<times> string list) list"

text \<open>Lines 241--247.\<close>

definition handle_error :: "request \<Rightarrow> py_exception \<Rightarrow> json_response" where
  "handle_error request exc =
     (let exception_str = format_exception exc
      in \<lparr> status_code = 503, content = [(''exception'', exception_str)] \<rparr>)"

text \<open>Lines 260--262: the empty JSON object.\<close>

definition health_check :: "(string \<times> string list) list" where
  "health_check = []"

subsection \<open>The application object and the static files\<close>

text \<open>
  A \<^verbatim>\<open>pathlib.Path\<close> is the list of its parts; \<^verbatim>\<open>p / "x"\<close> appends the part
  \<^verbatim>\<open>"x"\<close>, and \<^verbatim>\<open>".."\<close> is kept as a part. \<open>str_path\<close> is \<^verbatim>\<open>str(p)\<close> on a POSIX
  system, where the root is the part \<^verbatim>\<open>"/"\<close>.
\<close>

type_synonym path = "string list"

fun join_parts :: "string list \<Rightarrow> string" where
  "join_parts [] = []"
| "join_parts [x] = x"
| "join_parts (x # y # ys) = x @ ''/'' @ join_parts (y # ys)"

definition str_path :: "path \<Rightarrow> string" where
  "str_path p =
     (case p of
        [] \<Rightarrow> ''.''
      | x # xs \<Rightarrow> if x = ''/'' then ''/'' @ join_parts xs else join_parts (x # xs))"

record static_files =
  directory :: path
  html :: bool

text \<open>
  The routes of the application, in the order of registration. \<open>Routes_of_api_router\<close>
  stands for whatever \<^verbatim>\<open>api_router.setup_routes\<close> registers; \<open>Mount path app name\<close> is an
  \<^verbatim>\<open>app.mount(path, app, name=name)\<close>.
\<close>

datatype route =
    Routes_of_api_router
  | Api_route string string callable
  | Mount string static_files string

record fastapi_app =
  title :: string
  version :: string
  separate_input_output_schemas :: bool
  lifespan :: callable
  exception_handlers :: "(string \<times> callable) list"
  routes :: "route list"

text \<open>\<^verbatim>\<open>app.mount\<close> adds the mount after the routes already registered.\<close>

definition mount :: "fastapi_app \<Rightarrow> string \<Rightarrow> static_files \<Rightarrow> string \<Rightarrow> fastapi_app" where
  "mount app mount_path sub_app mount_name =
     app\<lparr> routes := routes app @ [Mount mount_path sub_app mount_name] \<rparr>"

text \<open>Lines 266--275.\<close>

definition web_app_search_dirs :: "path \<Rightarrow> path list" where
  "web_app_search_dirs this_dir =
     [this_dir @ [''..'', ''pipeline-studio-app'', ''build''],
      this_dir @ [''..'', ''frontend'', ''build''],
      this_dir @ [''..'', ''frontend_build''],
      this_dir @ [''..'', ''tangle-ui'', ''dist''],
      this_dir @ [''..'', ''ui_build''],
      this_dir @ [''pipeline-studio-app'', ''build''],
      this_dir @ [''ui_build'']]"

text \<open>Lines 279--299: the body of the loop for a directory that exists.\<close>

definition mount_web_app_dir :: "path \<Rightarrow> call list \<times> fastapi_app \<Rightarrow> call list \<times> fastapi_app" where
  "mount_web_app_dir web_app_dir st =
     (case st of (cs, app) \<Rightarrow>
        (cs @ [Logger_info (''Found the Web app static files at '' @ str_path web_app_dir
                 @ ''. Mounting them.'')],
         mount
           (mount
              (mount app ''/tangle-ui/'' \<lparr> directory = web_app_dir, html = True \<rparr> ''static'')
              ''/pipeline-studio-app/'' \<lparr> directory = web_app_dir, html = True \<rparr> ''static'')
           ''/'' \<lparr> directory = web_app_dir, html = True \<rparr> ''static''))"

text \<open>
  Lines 276--299: the loop over the candidates; \<open>exists\<close> is \<^verbatim>\<open>Path.exists\<close>. The loop has
  no \<^verbatim>\<open>break\<close>. The state is the flag \<^verbatim>\<open>found_frontend_build_files\<close>, the calls made and
  the application.
\<close>

fun mount_loop ::
  "(path \<Rightarrow> bool) \<Rightarrow> path list \<Rightarrow> bool \<times> call list \<times> fastapi_app \<Rightarrow> bool \<times> call list \<times> fastapi_app" where
  "mount_loop exists [] st = st"
| "mount_loop exists (web_app_dir # rest) (found_frontend_build_files, st) =
     (if exists web_app_dir then mount_loop exists rest (True, mount_web_app_dir web_app_dir st)
      else mount_loop exists rest (found_frontend_build_files, st))"

text \<open>Lines 266--301.\<close>

definition mount_web_app :: "(path \<Rightarrow> bool) \<Rightarrow> path \<Rightarrow> fastapi_app \<Rightarrow> call list \<times> fastapi_app" where
  "mount_web_app exists this_dir app =
     (case mount_loop exists (web_app_search_dirs this_dir) (False, [], app) of
        (found_frontend_build_files, cs, app') \<Rightarrow>
          if \<not> found_frontend_build_files
          then (cs @ [Logger_warning ''The Web app files were not found. Skipping.''], app')
          else (cs, app'))"

subsection \<open>The module as a whole\<close>

text \<open>
  Importing \<^verbatim>\<open>start.py\<close> runs its regions in order; an exception that leaves a region
  leaves the import, and the statements after it do not run. The result is the module's
  globals and the application.
\<close>

definition setup_routes_kwargs :: "db_engine \<Rightarrow> authentication \<Rightarrow> launcher \<Rightarrow> kwargs" where
  "setup_routes_kwargs db_engine auth launcher =
     [(''app'', Py_app),
      (''db_engine'', Py_db_engine db_engine),
      (''user_details_getter'', Py_user_details_getter (user_details_getter auth)),
      (''container_launcher_for_log_streaming'', Py_launcher launcher),
      (''default_component_library_owner_username'',
         Py_str (default_component_library_owner_username auth))]"

definition new_app :: fastapi_app where
  "new_app =
     \<lparr> title = ''Tangle API'', version = ''0.0.1'', separate_input_output_schemas = False,
       lifespan = Lifespan, exception_handlers = [], routes = [] \<rparr>"

definition import_start_py ::
  "kubernetes_lib \<Rightarrow> (path \<Rightarrow> bool) \<Rightarrow> path \<Rightarrow> configuration
     \<Rightarrow> call list \<times> (py_exception + module_globals \<times> fastapi_app)" where
  "import_start_py k exists this_dir cfg =
     (case launcher_configuration k cfg of
        (cs1, Inl e) \<Rightarrow> (cs1, Inl e)
      | (cs1, Inr launcher) \<Rightarrow>
          (case authentication_configuration cfg of
             Inl e \<Rightarrow> (cs1, Inl e)
           | Inr auth \<Rightarrow>
               (let db_engine = Db_engine (database_uri cfg);
                    cs2 = [Create_db_engine_and_migrate_db (database_uri cfg)];
                    app1 = new_app\<lparr> exception_handlers := [(''Exception'', Handle_error)] \<rparr>;
                    cs3 = [Setup_routes (setup_routes_kwargs db_engine auth launcher)];
                    app2 = app1\<lparr> routes := routes app1 @ [Routes_of_api_router] \<rparr>;
                    app3 = app2\<lparr> routes := routes app2 @ [Api_route ''GET'' ''/services/ping'' Health_check] \<rparr>
                in case mount_web_app exists this_dir app3 of
                     (cs4, app4) \<Rightarrow>
                       (cs1 @ cs2 @ cs3 @ cs4,
                        Inr (\<lparr> g_configuration = cfg,
                                g_storage_provider = GoogleCloudStorageProvider,
                                g_launcher = launcher,
                                g_authentication = auth,
                                g_db_engine = db_engine \<rparr>,
                             app4)))))"

text \<open>
  The callables that the module registers for serving requests: the exception handlers
  and the endpoints of its routes.
\<close>

fun route_endpoints :: "route \<Rightarrow> callable list" where
  "route_endpoints (Api_route _ _ c) = [c]"
| "route_endpoints _ = []"

definition request_handlers :: "fastapi_app \<Rightarrow> callable list" where
  "request_handlers app = map snd (exception_handlers app) @ concat (map route_endpoints (routes app))"

text \<open>
  What the process does after the import, as far as \<^verbatim>\<open>start.py\<close> decides it: the server
  enters and leaves the lifespan context, serves the health check, turns an unhandled
  exception of a request into a response, and the orchestrator thread may end. Only
  \<^verbatim>\<open>lifespan\<close> touches the process state; the module has no code that reacts to the end of
  the thread.
\<close>

datatype process_event =
    Lifespan_startup "string \<Rightarrow> string option"
  | Lifespan_shutdown
  | Get_services_ping
  | Unhandled_exception request py_exception
  | Orchestrator_thread_ended thread_state

fun process_step :: "process \<Rightarrow> process_event \<Rightarrow> process" where
  "process_step p (Lifespan_startup environ) = lifespan_startup environ p"
| "process_step p Lifespan_shutdown = lifespan_shutdown p"
| "process_step p Get_services_ping = p"
| "process_step p (Unhandled_exception request exc) = p"
| "process_step p (Orchestrator_thread_ended st) = p"

fun is_lifespan_startup :: "process_event \<Rightarrow> bool" where
  "is_lifespan_startup (Lifespan_startup _) = True"
| "is_lifespan_startup _ = False"

section \<open>Concrete collaborators and inputs\<close>

text \<open>
  Answers of the Kubernetes client library in three situations: no configuration can be
  loaded at all; outside a cluster with a kubeconfig but an API server that does not
  answer; inside a cluster.
\<close>

definition config_exception :: py_exception where
  "config_exception =
     \<lparr> exc_type_name = ''kubernetes.config.config_exception.ConfigException'',
       exc_str = ''Service host/port is not set.'',
       exc_traceback = [] \<rparr>"

definition connection_error :: py_exception where
  "connection_error =
     \<lparr> exc_type_name = ''urllib3.exceptions.MaxRetryError'',
       exc_str = ''Max retries exceeded with url: /version/'',
       exc_traceback = [] \<rparr>"

definition kube_no_config :: kubernetes_lib where
  "kube_no_config =
     \<lparr> load_incluster_config = Inl config_exception,
       load_kube_config = (\<lambda>config_file context. Inl config_exception),
       get_code = (\<lambda>client timeout. Inr ()) \<rparr>"

definition kube_unreachable :: kubernetes_lib where
  "kube_unreachable =
     \<lparr> load_incluster_config = Inl config_exception,
       load_kube_config = (\<lambda>config_file context. Inr ()),
       get_code = (\<lambda>client timeout. Inl connection_error) \<rparr>"

definition kube_in_cluster :: kubernetes_lib where
  "kube_in_cluster =
     \<lparr> load_incluster_config = Inr (),
       load_kube_config = (\<lambda>config_file context. Inl config_exception),
       get_code = (\<lambda>client timeout. Inr ()) \<rparr>"

text \<open>The constructor calls and the \<^verbatim>\<open>run_loop\<close> calls of a list of calls, in order.\<close>

fun constructor_calls :: "call list \<Rightarrow> kwargs list" where
  "constructor_calls [] = []"
| "constructor_calls (OrchestratorService_Sql kw # cs) = kw # constructor_calls cs"
| "constructor_calls (c # cs) = constructor_calls cs"

fun run_loop_calls :: "call list \<Rightarrow> orchestrator list" where
  "run_loop_calls [] = []"
| "run_loop_calls (Run_loop orchestrator # cs) = orchestrator # run_loop_calls cs"
| "run_loop_calls (c # cs) = run_loop_calls cs"

text \<open>
  The configuration items as the specification of the orchestrator lists them: a sweep
  interval that is a duration, a retry limit that is an integer and a
  skip-on-upstream-failure policy that is a boolean. \<open>spec_configuration_passed\<close> says of the
  keyword arguments of a constructor call that a value of each of the three kinds is
  among them.
\<close>

fun is_py_float :: "py_value \<Rightarrow> bool" where
  "is_py_float (Py_float x) = True"
| "is_py_float v = False"

fun is_py_int :: "py_value \<Rightarrow> bool" where
  "is_py_int (Py_int i) = True"
| "is_py_int v = False"

fun is_py_bool :: "py_value \<Rightarrow> bool" where
  "is_py_bool (Py_bool b) = True"
| "is_py_bool v = False"

definition spec_configuration_passed :: "kwargs \<Rightarrow> bool" where
  "spec_configuration_passed kw =
     (list_ex is_py_float (map snd kw)
      \<and> list_ex is_py_int (map snd kw)
      \<and> list_ex is_py_bool (map snd kw))"

text \<open>Two requests that differ in every attribute.\<close>

definition ping_request :: request where
  "ping_request =
     \<lparr> request_method = ''GET'', request_path = ''/services/ping'', request_headers = [],
       request_cookies = [], request_client_host = Some ''10.0.0.7'', request_body = [] \<rparr>"

definition delete_request :: request where
  "delete_request =
     \<lparr> request_method = ''DELETE'', request_path = ''/api/pipeline_runs/17'',
       request_headers = [(''authorization'', ''Bearer of-somebody-else'')],
       request_cookies = [(''session'', ''guest'')], request_client_host = None,
       request_body = [] \<rparr>"

text \<open>
  An orchestrator whose loop runs forever, one whose loop raises, and one whose
  constructor raises.
\<close>

definition looping_orchestrator_lib :: orchestrator_lib where
  "looping_orchestrator_lib =
     \<lparr> new_OrchestratorService_Sql = (\<lambda>kw. Inr (Orchestrator_object 1)),
       run_loop = (\<lambda>orchestrator. Never_returns) \<rparr>"

definition operational_error :: py_exception where
  "operational_error =
     \<lparr> exc_type_name = ''sqlalchemy.exc.OperationalError'',
       exc_str = ''unable to open database file'',
       exc_traceback =
         [\<lparr> frame_filename = ''/app/start.py'', frame_lineno = 203, frame_name = ''run_orchestrator'',
            frame_line = ''orchestrator.run_loop()'' \<rparr>] \<rparr>"

definition failing_orchestrator_lib :: orchestrator_lib where
  "failing_orchestrator_lib =
     \<lparr> new_OrchestratorService_Sql = (\<lambda>kw. Inr (Orchestrator_object 1)),
       run_loop = (\<lambda>orchestrator. Raised operational_error) \<rparr>"

definition unconstructible_orchestrator_lib :: orchestrator_lib where
  "unconstructible_orchestrator_lib =
     \<lparr> new_OrchestratorService_Sql = (\<lambda>kw. Inl operational_error),
       run_loop = (\<lambda>orchestrator. Never_returns) \<rparr>"

text \<open>
  The globals after an import inside a cluster with the configuration as written in
  \<^verbatim>\<open>start.py\<close>.
\<close>

definition in_cluster_launcher :: launcher where
  "in_cluster_launcher =
     \<lparr> launcher_api_client = ApiClient In_cluster, launcher_namespace = ''default'',
       launcher_service_account_name = None \<rparr>"

definition in_cluster_globals :: module_globals where
  "in_cluster_globals =
     \<lparr> g_configuration = start_py_configuration,
       g_storage_provider = GoogleCloudStorageProvider,
       g_launcher = in_cluster_launcher,
       g_authentication =
         \<lparr> user_details_getter = get_user_details,
           default_component_library_owner_username = ADMIN_USER_NAME \<rparr>,
       g_db_engine = Db_engine ''sqlite:///db.sqlite'' \<rparr>"

text \<open>
  The process right after the import, with no thread started yet, and the environment
  of a Google Cloud Shell.
\<close>

definition fresh_process :: "module_globals \<Rightarrow> process" where
  "fresh_process g = \<lparr> process_globals = g, process_threads = [], process_calls = [] \<rparr>"

definition cloud_shell_environ :: "string \<Rightarrow> string option" where
  "cloud_shell_environ var = (if var = ''GOOGLE_CLOUD_SHELL'' then Some ''true'' else None)"

(*DEFS-END*)

section \<open>Properties\<close>

subsection \<open>Launcher configuration\<close>

text \<open>
  Claim C10. At import time the module first calls \<^verbatim>\<open>load_incluster_config\<close>. Whatever
  exception that call raises, the module then calls \<^verbatim>\<open>load_kube_config\<close> with the
  configured path and context. When a configuration is loaded it builds the client and
  calls \<^verbatim>\<open>get_code\<close> on it with a timeout of 5 seconds. An exception of the fallback load
  or of the probe is the result of the region, and then of the import of the module:
  nothing after it runs. A launcher exists only when the probe has succeeded.
\<close>

theorem launcher_configuration_fallback_and_probe:
  "(\<forall>e e'. load_incluster_config k = Inl e
        \<and> load_kube_config k (kubeconfig_path cfg) (kubeconfig_context cfg) = Inl e' \<longrightarrow>
      launcher_configuration k cfg =
        ([Load_incluster_config, Load_kube_config (kubeconfig_path cfg) (kubeconfig_context cfg)],
         Inl e'))
   \<and> (\<forall>e e'. load_incluster_config k = Inl e
        \<and> load_kube_config k (kubeconfig_path cfg) (kubeconfig_context cfg) = Inr ()
        \<and> get_code k (ApiClient (Kube_config (kubeconfig_path cfg) (kubeconfig_context cfg))) 5 = Inl e' \<longrightarrow>
      launcher_configuration k cfg =
        ([Load_incluster_config, Load_kube_config (kubeconfig_path cfg) (kubeconfig_context cfg),
          VersionApi_get_code (ApiClient (Kube_config (kubeconfig_path cfg) (kubeconfig_context cfg))) 5],
         Inl e'))
   \<and> (\<forall>e'. load_incluster_config k = Inr ()
        \<and> get_code k (ApiClient In_cluster) 5 = Inl e' \<longrightarrow>
      launcher_configuration k cfg =
        ([Load_incluster_config, VersionApi_get_code (ApiClient In_cluster) 5], Inl e'))
   \<and> (\<forall>l. snd (launcher_configuration k cfg) = Inr l \<longrightarrow>
        get_code k (launcher_api_client l) 5 = Inr ()
        \<and> last (fst (launcher_configuration k cfg)) = VersionApi_get_code (launcher_api_client l) 5
        \<and> hd (fst (launcher_configuration k cfg)) = Load_incluster_config
        \<and> (launcher_api_client l = ApiClient In_cluster \<and> load_incluster_config k = Inr ()
           \<or> launcher_api_client l = ApiClient (Kube_config (kubeconfig_path cfg) (kubeconfig_context cfg))
             \<and> (\<exists>e. load_incluster_config k = Inl e)
             \<and> load_kube_config k (kubeconfig_path cfg) (kubeconfig_context cfg) = Inr ()))
   \<and> (\<forall>e. snd (launcher_configuration k cfg) = Inl e \<longrightarrow>
        import_start_py k exists this_dir cfg = (fst (launcher_configuration k cfg), Inl e))"
  by (auto simp: launcher_configuration_def load_kubernetes_config_def test_k8s_client_def
        import_start_py_def Let_def split: sum.splits prod.splits)

theorem launcher_configuration_fallback_and_probe_witness:
  "launcher_configuration kube_no_config start_py_configuration =
     ([Load_incluster_config, Load_kube_config None None], Inl config_exception)
   \<and> launcher_configuration kube_unreachable start_py_configuration =
     ([Load_incluster_config, Load_kube_config None None,
       VersionApi_get_code (ApiClient (Kube_config None None)) 5], Inl connection_error)
   \<and> import_start_py kube_unreachable (\<lambda>p. False) [''/'', ''app''] start_py_configuration =
     ([Load_incluster_config, Load_kube_config None None,
       VersionApi_get_code (ApiClient (Kube_config None None)) 5], Inl connection_error)
   \<and> get_code kube_in_cluster (ApiClient In_cluster) 5 = Inr ()
   \<and> (\<exists>l. snd (launcher_configuration kube_in_cluster start_py_configuration) = Inr l
         \<and> launcher_api_client l = ApiClient In_cluster)"
proof -
  have a: "load_incluster_config kube_no_config = Inl config_exception"
    "load_kube_config kube_no_config (kubeconfig_path start_py_configuration)
       (kubeconfig_context start_py_configuration) = Inl config_exception"
    by (simp_all add: kube_no_config_def)
  have b: "load_incluster_config kube_unreachable = Inl config_exception"
    "load_kube_config kube_unreachable (kubeconfig_path start_py_configuration)
       (kubeconfig_context start_py_configuration) = Inr ()"
    "get_code kube_unreachable (ApiClient (Kube_config (kubeconfig_path start_py_configuration)
       (kubeconfig_context start_py_configuration))) 5 = Inl connection_error"
    by (simp_all add: kube_unreachable_def)
  have c: "kubeconfig_path start_py_configuration = None"
    "kubeconfig_context start_py_configuration = None"
    by (simp_all add: start_py_configuration_def)
  have d: "\<exists>l. snd (launcher_configuration kube_in_cluster start_py_configuration) = Inr l"
    by (simp add: launcher_configuration_def load_kubernetes_config_def test_k8s_client_def
          kube_in_cluster_def Let_def)
  have e: "\<And>e. load_incluster_config kube_in_cluster \<noteq> Inl e"
    by (simp add: kube_in_cluster_def)
  note t1 = launcher_configuration_fallback_and_probe [of kube_no_config start_py_configuration]
  note t2 = launcher_configuration_fallback_and_probe
              [of kube_unreachable start_py_configuration "\<lambda>p. False" "[''/'', ''app'']"]
  note t3 = launcher_configuration_fallback_and_probe [of kube_in_cluster start_py_configuration]
  have w1: "launcher_configuration kube_no_config start_py_configuration =
     ([Load_incluster_config, Load_kube_config None None], Inl config_exception)"
    using t1 [THEN conjunct1, rule_format, OF conjI [OF a(1) a(2)]] unfolding c .
  have w2: "launcher_configuration kube_unreachable start_py_configuration =
     ([Load_incluster_config, Load_kube_config None None,
       VersionApi_get_code (ApiClient (Kube_config None None)) 5], Inl connection_error)"
    using t2 [THEN conjunct2, THEN conjunct1, rule_format, OF conjI [OF b(1) conjI [OF b(2) b(3)]]]
    unfolding c .
  have w2': "snd (launcher_configuration kube_unreachable start_py_configuration) = Inl connection_error"
    by (simp add: w2)
  have w3: "import_start_py kube_unreachable (\<lambda>p. False) [''/'', ''app''] start_py_configuration =
     ([Load_incluster_config, Load_kube_config None None,
       VersionApi_get_code (ApiClient (Kube_config None None)) 5], Inl connection_error)"
    using t2 [THEN conjunct2, THEN conjunct2, THEN conjunct2, THEN conjunct2, rule_format, OF w2']
    by (simp add: w2)
  have w4: "get_code kube_in_cluster (ApiClient In_cluster) 5 = Inr ()"
    by (simp add: kube_in_cluster_def)
  have w5: "\<exists>l. snd (launcher_configuration kube_in_cluster start_py_configuration) = Inr l
         \<and> launcher_api_client l = ApiClient In_cluster"
  proof -
    from d obtain l where l: "snd (launcher_configuration kube_in_cluster start_py_configuration) = Inr l"
      by blast
    from t3 [THEN conjunct2, THEN conjunct2, THEN conjunct2, THEN conjunct1, rule_format, OF l] e
    have "launcher_api_client l = ApiClient In_cluster" by blast
    with l show ?thesis by blast
  qed
  show ?thesis using w1 w2 w3 w4 w5 by blast
qed

text \<open>The example globals are those of an import inside a cluster.\<close>

lemma in_cluster_globals_from_import:
  "\<exists>app. snd (import_start_py kube_in_cluster ex this_dir start_py_configuration) = Inr (in_cluster_globals, app)"
  by (simp add: import_start_py_def launcher_configuration_def load_kubernetes_config_def
        test_k8s_client_def kube_in_cluster_def authentication_configuration_def
        start_py_configuration_def in_cluster_globals_def in_cluster_launcher_def Let_def
        split: prod.splits)

subsection \<open>Authentication\<close>

text \<open>
  Claim C8. Under the authentication type \<^verbatim>\<open>"dummy_admin"\<close> the module defines
  \<^verbatim>\<open>get_user_details\<close>, and that function is constant: for every request it returns the
  user named \<^verbatim>\<open>"admin"\<close> with the read, write and admin permissions all true, so any two
  requests get equal results.
\<close>

theorem get_user_details_constant:
  "authentication_type cfg = ''dummy_admin'' \<Longrightarrow>
     \<exists>auth. authentication_configuration cfg = Inr auth
       \<and> (\<forall>request. user_details_getter auth request =
             \<lparr> name = ''admin'',
               permissions = \<lparr> perm_read = True, perm_write = True, perm_admin = True \<rparr> \<rparr>)
       \<and> (\<forall>request request'. user_details_getter auth request = user_details_getter auth request')"
  by (simp add: authentication_configuration_def get_user_details_def ADMIN_USER_NAME_def)

theorem get_user_details_constant_witness:
  "authentication_type start_py_configuration = ''dummy_admin''
   \<and> (\<exists>auth. authentication_configuration start_py_configuration = Inr auth
        \<and> user_details_getter auth ping_request = user_details_getter auth delete_request
        \<and> name (user_details_getter auth delete_request) = ''admin''
        \<and> perm_admin (permissions (user_details_getter auth delete_request)))"
proof -
  have h: "authentication_type start_py_configuration = ''dummy_admin''"
    by (simp add: start_py_configuration_def)
  from get_user_details_constant [OF h] obtain auth where
    a: "authentication_configuration start_py_configuration = Inr auth"
    and b: "\<And>request. user_details_getter auth request =
             \<lparr> name = ''admin'',
               permissions = \<lparr> perm_read = True, perm_write = True, perm_admin = True \<rparr> \<rparr>"
    by blast
  have "user_details_getter auth ping_request = user_details_getter auth delete_request"
    by (simp add: b)
  moreover have "name (user_details_getter auth delete_request) = ''admin''"
    by (simp add: b)
  moreover have "perm_admin (permissions (user_details_getter auth delete_request))"
    by (simp add: b)
  ultimately show ?thesis using h a by blast
qed

subsection \<open>Orchestrator initialization\<close>

text \<open>
  Claim C2. Every call of \<^verbatim>\<open>run_orchestrator\<close> calls the orchestrator's constructor exactly
  once, with exactly six keyword arguments: a session factory bound to the given
  database engine (no autocommit, no autoflush), the launcher, the storage provider, the
  artifacts root URI, the logs root URI and the sweep interval. When the constructor
  returns an orchestrator, \<^verbatim>\<open>run_loop\<close> is called on that object, once, as the last call,
  and its outcome is the outcome of \<^verbatim>\<open>run_orchestrator\<close>. When the constructor raises,
  \<^verbatim>\<open>run_loop\<close> is not called and the exception leaves \<^verbatim>\<open>run_orchestrator\<close>.
\<close>

theorem run_orchestrator_construction_contract:
  "constructor_calls
     (fst (run_orchestrator lib launcher db_engine storage_provider data_root_uri logs_root_uri' sleep_seconds)) =
     [[(''session_factory'',
          Py_sessionmaker \<lparr> autocommit = False, autoflush = False, bind = db_engine \<rparr>),
       (''launcher'', Py_launcher launcher),
       (''storage_provider'', Py_storage_provider storage_provider),
       (''data_root_uri'', Py_str data_root_uri),
       (''logs_root_uri'', Py_str logs_root_uri'),
       (''sleep_seconds_between_queue_sweeps'', Py_float sleep_seconds)]]
   \<and> (\<forall>kw orchestrator.
         constructor_calls
           (fst (run_orchestrator lib launcher db_engine storage_provider data_root_uri logs_root_uri' sleep_seconds)) = [kw]
         \<and> new_OrchestratorService_Sql lib kw = Inr orchestrator \<longrightarrow>
         run_loop_calls
           (fst (run_orchestrator lib launcher db_engine storage_provider data_root_uri logs_root_uri' sleep_seconds)) = [orchestrator]
         \<and> last (fst (run_orchestrator lib launcher db_engine storage_provider data_root_uri logs_root_uri' sleep_seconds)) =
             Run_loop orchestrator
         \<and> snd (run_orchestrator lib launcher db_engine storage_provider data_root_uri logs_root_uri' sleep_seconds) =
             run_loop lib orchestrator)
   \<and> (\<forall>kw e.
         constructor_calls
           (fst (run_orchestrator lib launcher db_engine storage_provider data_root_uri logs_root_uri' sleep_seconds)) = [kw]
         \<and> new_OrchestratorService_Sql lib kw = Inl e \<longrightarrow>
         run_loop_calls
           (fst (run_orchestrator lib launcher db_engine storage_provider data_root_uri logs_root_uri' sleep_seconds)) = []
         \<and> snd (run_orchestrator lib launcher db_engine storage_provider data_root_uri logs_root_uri' sleep_seconds) =
             Raised e)"
  by (auto simp: run_orchestrator_def orchestrator_kwargs_def Let_def split: sum.splits)

theorem run_orchestrator_construction_contract_witness:
  "run_loop_calls (fst (run_orchestrator looping_orchestrator_lib in_cluster_launcher
       (Db_engine ''sqlite:///db.sqlite'') GoogleCloudStorageProvider
       ''gs://<bucket-artifacts>/artifacts'' ''gs://<bucket-logs>/logs'' 1)) = [Orchestrator_object 1]
   \<and> snd (run_orchestrator looping_orchestrator_lib in_cluster_launcher
       (Db_engine ''sqlite:///db.sqlite'') GoogleCloudStorageProvider
       ''gs://<bucket-artifacts>/artifacts'' ''gs://<bucket-logs>/logs'' 1) = Never_returns
   \<and> run_loop_calls (fst (run_orchestrator unconstructible_orchestrator_lib in_cluster_launcher
       (Db_engine ''sqlite:///db.sqlite'') GoogleCloudStorageProvider
       ''gs://<bucket-artifacts>/artifacts'' ''gs://<bucket-logs>/logs'' 1)) = []
   \<and> snd (run_orchestrator unconstructible_orchestrator_lib in_cluster_launcher
       (Db_engine ''sqlite:///db.sqlite'') GoogleCloudStorageProvider
       ''gs://<bucket-artifacts>/artifacts'' ''gs://<bucket-logs>/logs'' 1) = Raised operational_error"
proof -
  let ?run = "\<lambda>lib. run_orchestrator lib in_cluster_launcher
       (Db_engine ''sqlite:///db.sqlite'') GoogleCloudStorageProvider
       ''gs://<bucket-artifacts>/artifacts'' ''gs://<bucket-logs>/logs'' 1"
  note t1 = run_orchestrator_construction_contract [of looping_orchestrator_lib in_cluster_launcher
       "Db_engine ''sqlite:///db.sqlite''" GoogleCloudStorageProvider
       "''gs://<bucket-artifacts>/artifacts''" "''gs://<bucket-logs>/logs''" 1]
  note t2 = run_orchestrator_construction_contract [of unconstructible_orchestrator_lib in_cluster_launcher
       "Db_engine ''sqlite:///db.sqlite''" GoogleCloudStorageProvider
       "''gs://<bucket-artifacts>/artifacts''" "''gs://<bucket-logs>/logs''" 1]
  have c1: "\<And>kw. new_OrchestratorService_Sql looping_orchestrator_lib kw = Inr (Orchestrator_object 1)"
    by (simp add: looping_orchestrator_lib_def)
  have l1: "run_loop looping_orchestrator_lib (Orchestrator_object 1) = Never_returns"
    by (simp add: looping_orchestrator_lib_def)
  have c2: "\<And>kw. new_OrchestratorService_Sql unconstructible_orchestrator_lib kw = Inl operational_error"
    by (simp add: unconstructible_orchestrator_lib_def)
  from t1 [THEN conjunct2, THEN conjunct1, rule_format, OF conjI [OF t1 [THEN conjunct1] c1]] l1
  have a: "run_loop_calls (fst (?run looping_orchestrator_lib)) = [Orchestrator_object 1]"
    and b: "snd (?run looping_orchestrator_lib) = Never_returns"
    by simp_all
  from t2 [THEN conjunct2, THEN conjunct2, rule_format, OF conjI [OF t2 [THEN conjunct1] c2]]
  have c: "run_loop_calls (fst (?run unconstructible_orchestrator_lib)) = []"
    and d: "snd (?run unconstructible_orchestrator_lib) = Raised operational_error"
    by simp_all
  from a b c d show ?thesis by blast
qed

text \<open>
  Claim C3, as stated: the sweep interval, the retry limit (an integer) and the
  skip-on-upstream-failure policy (a boolean) are each passed into the orchestrator when
  the bootstrap constructs it. The configured bootstrap refutes it: its one constructor
  call passes no integer and no boolean.
\<close>

theorem configuration_passed_counterexample:
  "constructor_calls (fst (run_configured_orchestrator looping_orchestrator_lib in_cluster_globals)) \<noteq> []
   \<and> list_all (\<lambda>kw. \<not> spec_configuration_passed kw)
       (constructor_calls (fst (run_configured_orchestrator looping_orchestrator_lib in_cluster_globals)))"
  by (simp add: run_configured_orchestrator_def run_orchestrator_def orchestrator_kwargs_def
        looping_orchestrator_lib_def spec_configuration_passed_def Let_def)

text \<open>
  Claim C3, amended. Of the three configuration items only the sweep interval is passed
  at construction: the one constructor call of \<^verbatim>\<open>run_orchestrator\<close> has the six keyword
  arguments \<^verbatim>\<open>session_factory\<close>, \<^verbatim>\<open>launcher\<close>, \<^verbatim>\<open>storage_provider\<close>, \<^verbatim>\<open>data_root_uri\<close>,
  \<^verbatim>\<open>logs_root_uri\<close> and \<^verbatim>\<open>sleep_seconds_between_queue_sweeps\<close>; the last one carries the
  interval, a float, and is the only number among them; no integer and no boolean is
  passed. The configured bootstrap passes the module's
  \<^verbatim>\<open>sleep_seconds_between_queue_sweeps\<close>.
\<close>

theorem only_sweep_interval_passed:
  "(\<exists>kw. constructor_calls
       (fst (run_orchestrator lib launcher db_engine storage_provider data_root_uri logs_root_uri' sleep_seconds)) = [kw]
     \<and> map fst kw =
         [''session_factory'', ''launcher'', ''storage_provider'', ''data_root_uri'', ''logs_root_uri'',
          ''sleep_seconds_between_queue_sweeps'']
     \<and> map_of kw ''sleep_seconds_between_queue_sweeps'' = Some (Py_float sleep_seconds)
     \<and> filter is_py_float (map snd kw) = [Py_float sleep_seconds]
     \<and> filter is_py_int (map snd kw) = []
     \<and> filter is_py_bool (map snd kw) = [])
   \<and> (\<exists>kw. constructor_calls (fst (run_configured_orchestrator lib g)) = [kw]
     \<and> map_of kw ''sleep_seconds_between_queue_sweeps'' =
         Some (Py_float (sleep_seconds_between_queue_sweeps (g_configuration g))))"
  by (simp add: run_configured_orchestrator_def run_orchestrator_def orchestrator_kwargs_def Let_def
        split: sum.splits)

end
